theory Spec2Isabelle
  imports Main "HOL-Library.Sublist"
begin

section \<open>Colour swatches: \<open>sortColorVariations\<close>\<close>

text \<open>
  \<open>algolia-product-colors.jsx\<close> and \<open>algolia-product-swatch.jsx\<close> carry the same
  function (lines 41 to 47 of both files):
  \<^verbatim>\<open>
    //This function resort colorVariations and put product color first
    const sortColorVariations = (colorVariations) => {
        if (!colorVariations) return []
        const productColor = colorVariations.find((color) => color.color === product.color)
        const otherColors = colorVariations.filter((color) => color.color !== product.color)
        return [productColor, ...otherColors]
    }
  \<close>
  A variant is an object with a \<open>color\<close> and a \<open>colorCode\<close>; the product is the closure
  variable \<open>product\<close>. \<open>Array.prototype.find\<close> returns \<open>undefined\<close> when nothing matches,
  so an element of the returned array is an optional variant (\<open>None\<close> is \<open>undefined\<close>).
  A missing \<open>colorVariations\<close> (\<open>undefined\<close> or \<open>null\<close>) is \<open>None\<close>; an empty array is
  truthy in JavaScript and takes the second path.
\<close>

record variant =
  color :: string
  colorCode :: string

record product =
  masterID :: string
  product_color :: string
  colorVariations :: "variant list option"

definition sortColorVariations :: "product \<Rightarrow> variant list option \<Rightarrow> variant option list" where
  "sortColorVariations product cvs =
     (case cvs of
        None \<Rightarrow> []
      | Some vs \<Rightarrow>
          (let productColor = find (\<lambda>c. color c = product_color product) vs;
               otherColors = filter (\<lambda>c. color c \<noteq> product_color product) vs
           in productColor # map Some otherColors))"

text \<open>The array the component keeps in \<open>useState\<close> and renders (lines 49 to 51).\<close>

definition sortedColorVariations :: "product \<Rightarrow> variant option list" where
  "sortedColorVariations product = sortColorVariations product (colorVariations product)"

section \<open>JavaScript values used by the product-list page\<close>

text \<open>
  A template literal \<open>`${n}`\<close> renders a non-negative integer in decimal, and
  \<open>undefined\<close> as the nine letters \<open>undefined\<close>.
\<close>

definition digit_char :: "nat \<Rightarrow> char" where
  "digit_char d = ''0123456789'' ! d"

fun string_of_nat :: "nat \<Rightarrow> string" where
  "string_of_nat n =
     (if n < 10 then [digit_char n]
      else string_of_nat (n div 10) @ [digit_char (n mod 10)])"

declare string_of_nat.simps [simp del]

definition template_string :: "string option \<Rightarrow> string" where
  "template_string v = (case v of None \<Rightarrow> ''undefined'' | Some s \<Rightarrow> s)"

text \<open>
  \<open>!!v\<close> for a value that is a string, \<open>null\<close> or \<open>undefined\<close>: only a non-empty
  string is truthy.
\<close>

definition truthy :: "string option \<Rightarrow> bool" where
  "truthy v = (case v of None \<Rightarrow> False | Some s \<Rightarrow> s \<noteq> [])"

datatype jsval =
    JUndefined
  | JStr string
  | JNum int
  | JArr "jsval list"
  | JObj "(string \<times> jsval) list"

text \<open>
  The two typed failures come from \<open>@salesforce/pwa-kit-react-sdk/ssr/universal/errors\<close>,
  a dependency that is not among the source files. As that library defines them, an
  \<open>HTTPError\<close> object has a \<open>status\<close> and a \<open>message\<close>; its constructor takes them
  in this order, \<open>new HTTPError(status, message)\<close>, and an argument left out is
  \<open>undefined\<close>. \<open>HTTPNotFound\<close> is a subclass whose constructor takes the message
  alone and passes \<open>(404, message)\<close> on.
\<close>

datatype error_class = HTTPError | HTTPNotFound

record http_failure =
  failure_class :: error_class
  failure_status :: jsval
  failure_message :: "string option"

definition new_HTTPError :: "jsval \<Rightarrow> string option \<Rightarrow> http_failure" where
  "new_HTTPError st msg =
     \<lparr>failure_class = HTTPError, failure_status = st, failure_message = msg\<rparr>"

definition new_HTTPNotFound :: "string option \<Rightarrow> http_failure" where
  "new_HTTPNotFound msg =
     \<lparr>failure_class = HTTPNotFound, failure_status = JNum 404, failure_message = msg\<rparr>"

text \<open>
  What the page can throw: one of the typed failures, the \<open>TypeError\<close> of reading a
  property of \<open>undefined\<close>, and the rejection of an awaited mutation.
\<close>

datatype js_error =
    Thrown http_failure
  | TypeError
  | MutationRejected

section \<open>The product-list page: what one render computes\<close>

subsection \<open>Inputs of a render\<close>

record api_response =
  status :: "nat option"

record api_error =
  response :: "api_response option"

record category =
  category_id :: string
  pageTitle :: string

record refinement =
  attributeId :: string
  label :: string

record product_search_result =
  refinements :: "refinement list option"
  total :: nat

record response =
  headers :: "string \<rightharpoonup> string"
  statusCode :: nat

text \<open>
  One page view: the router's location and params, the server context and what the
  hooks return in this render. \<open>location_search\<close> is the query string as the pairs
  \<open>URLSearchParams\<close> reads from it; \<open>error\<close> and \<open>category\<close> are the two results
  of \<open>useCategory\<close>, \<open>isLoading\<close>, \<open>isRefetching\<close> and \<open>productSearchResult\<close> those
  of \<open>useProductSearch\<close>.
\<close>

record page_view =
  location_search :: "(string \<times> string) list"
  categoryId :: "string option"
  res :: "response option"
  isLoading :: bool
  isRefetching :: bool
  productSearchResult :: "product_search_result option"
  error :: "api_error option"
  category :: "category option"

subsection \<open>Search scope (lines 165 to 167, 198 to 207, 239 to 240)\<close>

text \<open>\<open>URLSearchParams.get\<close>: the first value of the name, or \<open>null\<close>.\<close>

definition urlParams_get :: "(string \<times> string) list \<Rightarrow> string \<Rightarrow> string option" where
  "urlParams_get urlParams name = map_of urlParams name"

definition searchQuery :: "page_view \<Rightarrow> string option" where
  "searchQuery v = urlParams_get (location_search v) ''q''"

definition isSearch :: "page_view \<Rightarrow> bool" where
  "isSearch v = truthy (searchQuery v)"

text \<open>The \<open>enabled\<close> option handed to \<open>useCategory\<close>.\<close>

definition useCategory_enabled :: "page_view \<Rightarrow> bool" where
  "useCategory_enabled v = (\<not> isSearch v \<and> truthy (categoryId v))"

text \<open>\<open>const query = searchQuery ?? ''\<close>\<close>

definition query :: "page_view \<Rightarrow> string" where
  "query v = (case searchQuery v of None \<Rightarrow> [] | Some q \<Rightarrow> q)"

text \<open>\<open>const filters = !isLoading && category?.id ? `categories.id:${category.id}` : ''\<close>\<close>

definition filters :: "page_view \<Rightarrow> string" where
  "filters v =
     (case category v of
        None \<Rightarrow> []
      | Some c \<Rightarrow>
          if \<not> isLoading v \<and> category_id c \<noteq> [] then ''categories.id:'' @ category_id c
          else [])"

text \<open>
  The two modes of a page view, read off the two props of \<open>Configure\<close>: free-text
  search is active when a query text is applied, category-scoped browsing when a
  category filter is applied.
\<close>

definition free_text_search_active :: "page_view \<Rightarrow> bool" where
  "free_text_search_active v = (query v \<noteq> [])"

definition category_browsing_active :: "page_view \<Rightarrow> bool" where
  "category_browsing_active v = (filters v \<noteq> [])"

subsection \<open>Disallowed refinements (lines 96 and 209 to 214)\<close>

definition REFINEMENT_DISALLOW_LIST :: "string list" where
  "REFINEMENT_DISALLOW_LIST = [''c_isNew'']"

definition applyDisallowList :: "product_search_result option \<Rightarrow> product_search_result option" where
  "applyDisallowList psr =
     (case psr of
        None \<Rightarrow> None
      | Some r \<Rightarrow>
          (case refinements r of
             None \<Rightarrow> Some r
           | Some rs \<Rightarrow>
               Some (r\<lparr>refinements :=
                         Some (filter (\<lambda>x. attributeId x \<notin> set REFINEMENT_DISALLOW_LIST) rs)\<rparr>)))"

subsection \<open>Error handling (lines 216 to 226)\<close>

text \<open>\<open>const errorStatus = error?.response?.status\<close>\<close>

definition errorStatus :: "api_error option \<Rightarrow> nat option" where
  "errorStatus err =
     (case err of
        None \<Rightarrow> None
      | Some e \<Rightarrow> (case response e of None \<Rightarrow> None | Some r \<Rightarrow> status r))"

text \<open>
  The switch: \<open>throw new HTTPNotFound('Category Not Found.')\<close> for 404 and
  \<open>throw new HTTPError(`HTTP Error ${errorStatus} occurred.`)\<close>, a call with one
  argument, for every other status.
\<close>

definition errorHandling :: "nat option \<Rightarrow> js_error + unit" where
  "errorHandling es =
     (case es of
        None \<Rightarrow> Inr ()
      | Some s \<Rightarrow>
          if s = 404 then Inl (Thrown (new_HTTPNotFound (Some ''Category Not Found.'')))
          else Inl (Thrown (new_HTTPError
                              (JStr (''HTTP Error '' @ string_of_nat s @ '' occurred.'')) None)))"

subsection \<open>Response handling (lines 228 to 231)\<close>

text \<open>
  \<open>res.set(field, value)\<close> stores one header. \<open>MAX_CACHE_AGE\<close> is a constant of
  \<open>@salesforce/retail-react-app/app/constants\<close>, a parameter here.
\<close>

definition res_set :: "string \<Rightarrow> string \<Rightarrow> response \<Rightarrow> response" where
  "res_set field val r = r\<lparr>headers := (headers r)(field \<mapsto> val)\<rparr>"

definition responseHandling :: "nat \<Rightarrow> response option \<Rightarrow> response option" where
  "responseHandling MAX_CACHE_AGE r =
     (case r of
        None \<Rightarrow> None
      | Some r' \<Rightarrow> Some (res_set ''Cache-Control'' (''max-age='' @ string_of_nat MAX_CACHE_AGE) r'))"

subsection \<open>The render, in the order of the source\<close>

record rendered =
  out_res :: "response option"
  out_productSearchResult :: "product_search_result option"
  out_enabled :: bool
  out_query :: string
  out_filters :: string

definition ProductList :: "nat \<Rightarrow> page_view \<Rightarrow> js_error + rendered" where
  "ProductList MAX_CACHE_AGE v =
     (let psr = applyDisallowList (productSearchResult v) in
      case errorHandling (errorStatus (error v)) of
        Inl e \<Rightarrow> Inl e
      | Inr u \<Rightarrow>
          Inr \<lparr>out_res = responseHandling MAX_CACHE_AGE (res v),
               out_productSearchResult = psr,
               out_enabled = useCategory_enabled v,
               out_query = query v,
               out_filters = filters v\<rparr>)"

section \<open>The product-list page: state and handlers\<close>

subsection \<open>Page state\<close>

record hit =
  hit_id :: string
  productId :: string

record list_item =
  item_id :: string
  item_productId :: string

record wishlist =
  wishlist_id :: string
  customerProductListItems :: "list_item list option"

datatype message =
    API_ERROR_MESSAGE
  | TOAST_MESSAGE_ADDED_TO_WISHLIST
  | TOAST_MESSAGE_REMOVED_FROM_WISHLIST

record toast =
  title :: message
  toast_status :: string

record create_body =
  body_quantity :: nat
  body_public :: bool
  body_priority :: nat
  body_type :: string
  body_productId :: string

text \<open>
  A request to the commerce API: the customer id, the list id, then the body of
  \<open>createCustomerProductListItem\<close> or the item id of \<open>deleteCustomerProductListItem\<close>.
\<close>

datatype request =
    CreateCustomerProductListItem string string create_body
  | DeleteCustomerProductListItem string string string

text \<open>
  The state the handlers and effects of the page write: the two \<open>useState\<close> cells they
  set, the toasts shown, the mutation requests sent, the window's scroll calls, and the
  value of \<open>isRefetching\<close> at the last run of the effect of lines 234 to 237 (\<open>None\<close>
  before the first render), which is what React compares the dependency array with.
\<close>

record page_state =
  wishlistLoading :: "string list"
  filtersLoading :: bool
  toasts :: "toast list"
  requests :: "request list"
  scrolls :: "(int \<times> int) list"
  effect_isRefetching :: "bool option"

text \<open>
  What a handler closes over: \<open>wishlistLoading\<close> as it was in the render that created
  the handler, the \<open>data\<close> of \<open>useWishList\<close> and the customer id.
\<close>

record closure =
  seen_wishlistLoading :: "string list"
  seen_wishlist :: "wishlist option"
  customerId :: string

datatype outcome = Fulfilled | Rejected

definition setWishlistLoading :: "string list \<Rightarrow> page_state \<Rightarrow> page_state" where
  "setWishlistLoading ids st = st\<lparr>wishlistLoading := ids\<rparr>"

definition show_toast :: "toast \<Rightarrow> page_state \<Rightarrow> page_state" where
  "show_toast t st = st\<lparr>toasts := toasts st @ [t]\<rparr>"

definition send_request :: "request \<Rightarrow> page_state \<Rightarrow> page_state" where
  "send_request r st = st\<lparr>requests := requests st @ [r]\<rparr>"


subsection \<open>\<open>addItemToWishlist\<close> (lines 258 to 302)\<close>

text \<open>
  The handler up to the \<open>await\<close>: it sets the loading list, reads \<open>wishlist.id\<close> (a
  \<open>TypeError\<close> when the wish list is not there) and sends the request.
\<close>

definition addItemToWishlist_begin :: "closure \<Rightarrow> hit \<Rightarrow> page_state \<Rightarrow> (js_error + unit) \<times> page_state" where
  "addItemToWishlist_begin env product st =
     (let st1 = setWishlistLoading (seen_wishlistLoading env @ [productId product]) st in
      case seen_wishlist env of
        None \<Rightarrow> (Inl TypeError, st1)
      | Some w \<Rightarrow>
          (Inr (),
           send_request
             (CreateCustomerProductListItem (customerId env) (wishlist_id w)
                \<lparr>body_quantity = 1, body_public = False, body_priority = 1,
                 body_type = ''product'', body_productId = productId product\<rparr>)
             st1))"

text \<open>The callbacks of the mutation: \<open>onSuccess\<close> or \<open>onError\<close>, then \<open>onSettled\<close>.\<close>

definition addItemToWishlist_settled :: "closure \<Rightarrow> hit \<Rightarrow> outcome \<Rightarrow> page_state \<Rightarrow> page_state" where
  "addItemToWishlist_settled env product out st =
     (let st1 = (case out of
                   Rejected \<Rightarrow> show_toast \<lparr>title = API_ERROR_MESSAGE, toast_status = ''error''\<rparr> st
                 | Fulfilled \<Rightarrow>
                     show_toast \<lparr>title = TOAST_MESSAGE_ADDED_TO_WISHLIST, toast_status = ''success''\<rparr> st)
      in setWishlistLoading
           (filter (\<lambda>i. i \<noteq> productId product) (seen_wishlistLoading env)) st1)"

definition addItemToWishlist :: "closure \<Rightarrow> hit \<Rightarrow> outcome \<Rightarrow> page_state \<Rightarrow> (js_error + unit) \<times> page_state" where
  "addItemToWishlist env product out st =
     (case addItemToWishlist_begin env product st of
        (Inl e, st1) \<Rightarrow> (Inl e, st1)
      | (Inr u, st1) \<Rightarrow>
          (case out of Fulfilled \<Rightarrow> Inr () | Rejected \<Rightarrow> Inl MutationRejected,
           addItemToWishlist_settled env product out st1))"

subsection \<open>\<open>removeItemFromWishlist\<close> (lines 304 to 335)\<close>

text \<open>
  \<open>wishlist.customerProductListItems.find(...).id\<close>: three reads that throw a
  \<open>TypeError\<close> on \<open>undefined\<close> (no wish list, no item array, no matching item).
\<close>

definition find_itemId :: "wishlist option \<Rightarrow> hit \<Rightarrow> js_error + string" where
  "find_itemId wl product =
     (case wl of
        None \<Rightarrow> Inl TypeError
      | Some w \<Rightarrow>
          (case customerProductListItems w of
             None \<Rightarrow> Inl TypeError
           | Some items \<Rightarrow>
               (case find (\<lambda>i. item_productId i = productId product) items of
                  None \<Rightarrow> Inl TypeError
                | Some i \<Rightarrow> Inr (item_id i))))"

definition removeItemFromWishlist_begin :: "closure \<Rightarrow> hit \<Rightarrow> page_state \<Rightarrow> (js_error + unit) \<times> page_state" where
  "removeItemFromWishlist_begin env product st =
     (let st1 = setWishlistLoading (seen_wishlistLoading env @ [productId product]) st in
      case seen_wishlist env of
        None \<Rightarrow> (Inl TypeError, st1)
      | Some w \<Rightarrow>
          (case find_itemId (seen_wishlist env) product of
             Inl e \<Rightarrow> (Inl e, st1)
           | Inr itemId \<Rightarrow>
               (Inr (),
                send_request
                  (DeleteCustomerProductListItem (customerId env) (wishlist_id w) itemId) st1)))"

definition removeItemFromWishlist_settled :: "closure \<Rightarrow> hit \<Rightarrow> outcome \<Rightarrow> page_state \<Rightarrow> page_state" where
  "removeItemFromWishlist_settled env product out st =
     (let st1 = (case out of
                   Rejected \<Rightarrow> show_toast \<lparr>title = API_ERROR_MESSAGE, toast_status = ''error''\<rparr> st
                 | Fulfilled \<Rightarrow>
                     show_toast \<lparr>title = TOAST_MESSAGE_REMOVED_FROM_WISHLIST, toast_status = ''success''\<rparr> st)
      in setWishlistLoading
           (filter (\<lambda>i. i \<noteq> productId product) (seen_wishlistLoading env)) st1)"

definition removeItemFromWishlist :: "closure \<Rightarrow> hit \<Rightarrow> outcome \<Rightarrow> page_state \<Rightarrow> (js_error + unit) \<times> page_state" where
  "removeItemFromWishlist env product out st =
     (case removeItemFromWishlist_begin env product st of
        (Inl e, st1) \<Rightarrow> (Inl e, st1)
      | (Inr u, st1) \<Rightarrow>
          (case out of Fulfilled \<Rightarrow> Inr () | Rejected \<Rightarrow> Inl MutationRejected,
           removeItemFromWishlist_settled env product out st1))"

subsection \<open>\<open>resetFilters\<close> (lines 337 to 348)\<close>

text \<open>
  \<open>searchParams\<close> is an object of named values, \<open>{...searchParams, refine: []}\<close> a copy
  with one key replaced. \<open>stringifySearchParams\<close> belongs to the \<open>useSearchParams\<close> hook
  of the base application and is a parameter. The function returns the path it hands
  to \<open>navigate\<close>.
\<close>

type_synonym search_params = "string \<rightharpoonup> jsval"

definition newSearchParams :: "search_params \<Rightarrow> search_params" where
  "newSearchParams searchParams = searchParams(''refine'' \<mapsto> JArr [])"

definition resetFilters :: "(search_params \<Rightarrow> string) \<Rightarrow> search_params \<Rightarrow> page_view \<Rightarrow> string" where
  "resetFilters stringifySearchParams searchParams v =
     (if isSearch v then ''/search?'' @ stringifySearchParams (newSearchParams searchParams)
      else ''/category/'' @ template_string (categoryId v) @ ''?''
             @ stringifySearchParams (newSearchParams searchParams))"

subsection \<open>Scrolling: the effect of lines 233 to 237 and the pagination callback of line 548\<close>







subsection \<open>The tile of a hit (lines 495 to 541)\<close>

record tile =
  tile_testid :: string
  tile_key :: string
  tile_product :: hit
  enableFavourite :: bool
  isFavourite :: bool

definition hitComponent :: "wishlist option \<Rightarrow> hit \<Rightarrow> tile" where
  "hitComponent wl h =
     (let isInWishlist = False in
      \<lparr>tile_testid = ''sf-product-tile-'' @ hit_id h, tile_key = hit_id h, tile_product = h,
       enableFavourite = True, isFavourite = isInWishlist\<rparr>)"

datatype action = AddItemToWishlist hit | RemoveItemFromWishlist hit

definition onFavouriteToggle :: "hit \<Rightarrow> bool \<Rightarrow> action" where
  "onFavouriteToggle h isFav = (if isFav then AddItemToWishlist h else RemoveItemFromWishlist h)"

text \<open>
  Modelled from the spec: the tile component \<open>components/algolia-product-tile\<close> is not
  among the source files. Toggling favourite on a tile flips the flag the tile was
  rendered with and reports the new value to \<open>onFavouriteToggle\<close>.
\<close>

definition tile_toggle :: "tile \<Rightarrow> action" where
  "tile_toggle t = onFavouriteToggle (tile_product t) (\<not> isFavourite t)"

section \<open>Properties of \<open>sortColorVariations\<close>\<close>

lemma sortColorVariations_length:
  "length (sortColorVariations p (Some vs)) =
     Suc (length vs) - length (filter (\<lambda>c. color c = product_color p) vs)"
proof -
  have "length vs = length (filter (\<lambda>c. color c = product_color p) vs)
                  + length (filter (\<lambda>c. color c \<noteq> product_color p) vs)"
    using sum_length_filter_compl [of "\<lambda>c. color c = product_color p" vs] by simp
  then show ?thesis
    by (simp add: sortColorVariations_def)
qed

lemma sortColorVariations_tail:
  "tl (sortColorVariations p (Some vs)) = map Some (filter (\<lambda>c. color c \<noteq> product_color p) vs)"
  by (simp add: sortColorVariations_def)

lemma sortColorVariations_head_present:
  assumes "\<exists>v \<in> set vs. color v = product_color p"
  shows "\<exists>v. hd (sortColorVariations p (Some vs)) = Some v \<and> color v = product_color p \<and> v \<in> set vs"
proof -
  from assms obtain v where "find (\<lambda>c. color c = product_color p) vs = Some v"
    by (cases "find (\<lambda>c. color c = product_color p) vs") (auto simp: find_None_iff)
  moreover from this have "color v = product_color p \<and> v \<in> set vs"
    by (auto simp: find_Some_iff)
  ultimately show ?thesis
    by (simp add: sortColorVariations_def)
qed

lemma sortColorVariations_head_absent:
  assumes "\<forall>v \<in> set vs. color v \<noteq> product_color p"
  shows "sortColorVariations p (Some vs) = None # map Some vs"
proof -
  from assms have "find (\<lambda>c. color c = product_color p) vs = None"
    by (simp add: find_None_iff)
  moreover from assms have "filter (\<lambda>c. color c \<noteq> product_color p) vs = vs"
    by (simp add: filter_id_conv)
  ultimately show ?thesis
    by (simp add: sortColorVariations_def)
qed

lemma sortColorVariations_one_match:
  assumes "length (filter (\<lambda>c. color c = product_color p) vs) = 1"
  shows "length (sortColorVariations p (Some vs)) = length vs
         \<and> (\<exists>v \<in> set vs. hd (sortColorVariations p (Some vs)) = Some v \<and> color v = product_color p)
         \<and> tl (sortColorVariations p (Some vs))
             = map Some (filter (\<lambda>c. color c \<noteq> product_color p) vs)"
proof -
  from assms have "filter (\<lambda>c. color c = product_color p) vs \<noteq> []"
    by auto
  then have present: "\<exists>v \<in> set vs. color v = product_color p"
    by (auto simp: filter_empty_conv)
  from assms have "length (sortColorVariations p (Some vs)) = length vs"
    by (simp add: sortColorVariations_length)
  moreover from sortColorVariations_head_present [OF present]
  have "\<exists>v \<in> set vs. hd (sortColorVariations p (Some vs)) = Some v \<and> color v = product_color p"
    by blast
  ultimately show ?thesis
    by (simp add: sortColorVariations_tail)
qed

lemma sortColorVariations_repeated_colour:
  "sortColorVariations
       \<lparr>masterID = ''m1'', product_color = ''Red'', colorVariations = None\<rparr>
       (Some [\<lparr>color = ''Red'', colorCode = ''r1''\<rparr>, \<lparr>color = ''Red'', colorCode = ''r2''\<rparr>])
     = [Some \<lparr>color = ''Red'', colorCode = ''r1''\<rparr>]"
  by (simp add: sortColorVariations_def)

text \<open>
  Claim C1. For a product with a non-empty list of N colour variants the sorted list
  should have length N, start with the variant of the product's colour and keep the
  other variants in their order. At the product whose colour is \<open>Red\<close> and whose only
  variant is \<open>Blue\<close> (N = 1) the function returns two elements, one more than N, the
  first of them \<open>undefined\<close>: the array is not a reordering of the variants.
\<close>

theorem sortColorVariations_absent_colour:
  "sortColorVariations
       \<lparr>masterID = ''m1'', product_color = ''Red'',
        colorVariations = Some [\<lparr>color = ''Blue'', colorCode = ''b''\<rparr>]\<rparr>
       (Some [\<lparr>color = ''Blue'', colorCode = ''b''\<rparr>])
     = [None, Some \<lparr>color = ''Blue'', colorCode = ''b''\<rparr>]
   \<and> sortedColorVariations
       \<lparr>masterID = ''m1'', product_color = ''Red'',
        colorVariations = Some [\<lparr>color = ''Blue'', colorCode = ''b''\<rparr>]\<rparr>
     = [None, Some \<lparr>color = ''Blue'', colorCode = ''b''\<rparr>]
   \<and> length (sortedColorVariations
       \<lparr>masterID = ''m1'', product_color = ''Red'',
        colorVariations = Some [\<lparr>color = ''Blue'', colorCode = ''b''\<rparr>]\<rparr>)
     = Suc (length [\<lparr>color = ''Blue'', colorCode = ''b''\<rparr>])"
  by (simp add: sortedColorVariations_def sortColorVariations_def)

section \<open>Decimal rendering\<close>

lemma digit_char_inj:
  assumes "a < 10" and "b < 10" and "digit_char a = digit_char b"
  shows "a = b"
proof -
  from assms(1) have ca: "a \<in> {0, 1, 2, 3, 4, 5, 6, 7, 8, 9}" by auto
  from assms(2) have cb: "b \<in> {0, 1, 2, 3, 4, 5, 6, 7, 8, 9}" by auto
  from ca cb assms(3) show "a = b"
    unfolding digit_char_def by (elim insertE emptyE) simp_all
qed

lemma string_of_nat_small: "n < 10 \<Longrightarrow> string_of_nat n = [digit_char n]"
  by (simp add: string_of_nat.simps)

lemma string_of_nat_large:
  "\<not> n < 10 \<Longrightarrow> string_of_nat n = string_of_nat (n div 10) @ [digit_char (n mod 10)]"
  by (simp add: string_of_nat.simps)

lemma string_of_nat_nonempty: "string_of_nat n \<noteq> []"
  by (cases "n < 10") (simp_all add: string_of_nat_small string_of_nat_large)

lemma string_of_nat_inj: "string_of_nat n = string_of_nat m \<Longrightarrow> n = m"
proof (induction n arbitrary: m rule: string_of_nat.induct)
  case (1 n)
  show ?case
  proof (cases "n < 10")
    case n_small: True
    show ?thesis
    proof (cases "m < 10")
      case True
      with n_small "1.prems" show ?thesis
        by (auto simp: string_of_nat_small dest: digit_char_inj)
    next
      case False
      with n_small "1.prems" string_of_nat_nonempty [of "m div 10"] show ?thesis
        by (simp add: string_of_nat_small string_of_nat_large)
    qed
  next
    case n_large: False
    show ?thesis
    proof (cases "m < 10")
      case True
      with n_large "1.prems" string_of_nat_nonempty [of "n div 10"] show ?thesis
        by (simp add: string_of_nat_small string_of_nat_large)
    next
      case False
      with n_large "1.prems"
      have eq_front: "string_of_nat (n div 10) = string_of_nat (m div 10)"
        and eq_last: "digit_char (n mod 10) = digit_char (m mod 10)"
        by (simp_all add: string_of_nat_large)
      from "1.IH" [OF n_large eq_front] have "n div 10 = m div 10" .
      moreover from eq_last have "n mod 10 = m mod 10"
        by (auto dest!: digit_char_inj [rotated 2])
      ultimately show ?thesis
        by (metis div_mult_mod_eq)
    qed
  qed
qed

section \<open>Failures of the category lookup\<close>

lemma errorHandling_none: "errorHandling None = Inr ()"
  by (simp add: errorHandling_def)

lemma errorHandling_404:
  "errorHandling (Some 404) = Inl (Thrown (new_HTTPNotFound (Some ''Category Not Found.'')))"
  by (simp add: errorHandling_def)

lemma errorHandling_other:
  "s \<noteq> 404 \<Longrightarrow>
   errorHandling (Some s)
     = Inl (Thrown (new_HTTPError (JStr (''HTTP Error '' @ string_of_nat s @ '' occurred.'')) None))"
  by (simp add: errorHandling_def)

lemma ProductList_error:
  "errorHandling (errorStatus (error v)) = Inl e \<Longrightarrow> ProductList M v = Inl e"
  by (simp add: ProductList_def)

lemma ProductList_ok:
  "errorHandling (errorStatus (error v)) = Inr u \<Longrightarrow>
   ProductList M v =
     Inr \<lparr>out_res = responseHandling M (res v),
          out_productSearchResult = applyDisallowList (productSearchResult v),
          out_enabled = useCategory_enabled v, out_query = query v, out_filters = filters v\<rparr>"
  by (simp add: ProductList_def)

text \<open>
  What the render raises for each outcome of the category lookup: the not-found failure
  with its message for 404; for any other status an \<open>HTTPError\<close> whose \<open>status\<close> is
  the text built from the status code (a text that determines the code) and whose
  \<open>message\<close> is \<open>undefined\<close>; nothing when there is no error status.
\<close>

lemma category_lookup_outcomes:
  "(errorStatus (error v) = Some 404 \<longrightarrow>
      ProductList M v = Inl (Thrown (new_HTTPNotFound (Some ''Category Not Found.''))))
   \<and> (\<forall>s. errorStatus (error v) = Some s \<and> s \<noteq> 404 \<longrightarrow>
         (\<exists>f. ProductList M v = Inl (Thrown f) \<and> failure_class f = HTTPError
               \<and> failure_status f = JStr (''HTTP Error '' @ string_of_nat s @ '' occurred.'')
               \<and> failure_message f = None))
   \<and> (errorStatus (error v) = None \<longrightarrow> (\<exists>out. ProductList M v = Inr out))"
proof (intro conjI impI allI)
  assume "errorStatus (error v) = Some 404"
  then show "ProductList M v = Inl (Thrown (new_HTTPNotFound (Some ''Category Not Found.'')))"
    by (simp add: ProductList_error errorHandling_404)
next
  fix s
  let ?f = "new_HTTPError (JStr (''HTTP Error '' @ string_of_nat s @ '' occurred.'')) None"
  assume "errorStatus (error v) = Some s \<and> s \<noteq> 404"
  then have "ProductList M v = Inl (Thrown ?f)"
    by (simp add: ProductList_error errorHandling_other)
  moreover have "failure_class ?f = HTTPError" and "failure_message ?f = None"
    and "failure_status ?f = JStr (''HTTP Error '' @ string_of_nat s @ '' occurred.'')"
    by (simp_all add: new_HTTPError_def)
  ultimately show "\<exists>f. ProductList M v = Inl (Thrown f) \<and> failure_class f = HTTPError
               \<and> failure_status f = JStr (''HTTP Error '' @ string_of_nat s @ '' occurred.'')
               \<and> failure_message f = None"
    by blast
next
  assume "errorStatus (error v) = None"
  then show "\<exists>out. ProductList M v = Inr out"
    by (simp add: ProductList_ok errorHandling_none)
qed

lemma status_text_determines_code:
  assumes "''HTTP Error '' @ string_of_nat s' @ '' occurred.''
             = ''HTTP Error '' @ string_of_nat s @ '' occurred.''"
  shows "s' = s"
proof -
  from assms have "string_of_nat s' = string_of_nat s"
    by simp
  then show ?thesis
    by (rule string_of_nat_inj)
qed

lemma not_found_carries_message:
  "failure_class (new_HTTPNotFound (Some m)) = HTTPNotFound
   \<and> failure_status (new_HTTPNotFound (Some m)) = JNum 404
   \<and> failure_message (new_HTTPNotFound (Some m)) = Some m"
  by (simp add: new_HTTPNotFound_def)

text \<open>
  Claim C2. A category lookup error with a status other than 404 should make the page
  raise an \<open>HTTPError\<close> whose message carries the status code. For status 500 the page
  raises an \<open>HTTPError\<close> whose message is \<open>undefined\<close>: the text with the code is the
  only argument of the constructor and so becomes the \<open>status\<close> of the failure. (For
  404 the not-found failure does carry its message, and with no error status nothing
  is raised.)
\<close>

theorem generic_failure_has_no_message:
  "ProductList 900
      \<lparr>location_search = [], categoryId = Some ''mens'', res = None, isLoading = False,
        isRefetching = False, productSearchResult = None,
        error = Some \<lparr>response = Some \<lparr>status = Some 500\<rparr>\<rparr>, category = None\<rparr>
     = Inl (Thrown \<lparr>failure_class = HTTPError,
                    failure_status = JStr ''HTTP Error 500 occurred.'',
                    failure_message = None\<rparr>)
   \<and> ProductList 900
      \<lparr>location_search = [], categoryId = Some ''mens'', res = None, isLoading = False,
        isRefetching = False, productSearchResult = None,
        error = Some \<lparr>response = Some \<lparr>status = Some 404\<rparr>\<rparr>, category = None\<rparr>
     = Inl (Thrown \<lparr>failure_class = HTTPNotFound, failure_status = JNum 404,
                    failure_message = Some ''Category Not Found.''\<rparr>)"
proof -
  let ?view = "\<lambda>s. \<lparr>location_search = [], categoryId = Some ''mens'', res = None,
        isLoading = False, isRefetching = False, productSearchResult = None,
        error = Some \<lparr>response = Some \<lparr>status = Some s\<rparr>\<rparr>, category = None\<rparr>"
  have s500: "errorHandling (errorStatus (error (?view 500)))
                = Inl (Thrown (new_HTTPError (JStr (''HTTP Error '' @ string_of_nat 500 @ '' occurred.'')) None))"
    by (simp add: errorStatus_def errorHandling_other)
  have s404: "errorHandling (errorStatus (error (?view 404)))
                = Inl (Thrown (new_HTTPNotFound (Some ''Category Not Found.'')))"
    by (simp add: errorStatus_def errorHandling_404)
  have digits: "string_of_nat 500 = ''500''"
    by (simp add: string_of_nat.simps digit_char_def)
  from s500 have "ProductList 900 (?view 500)
      = Inl (Thrown (new_HTTPError (JStr (''HTTP Error '' @ string_of_nat 500 @ '' occurred.'')) None))"
    by (rule ProductList_error)
  moreover from s404 have "ProductList 900 (?view 404)
      = Inl (Thrown (new_HTTPNotFound (Some ''Category Not Found.'')))"
    by (rule ProductList_error)
  ultimately show ?thesis
    by (simp add: digits new_HTTPError_def new_HTTPNotFound_def)
qed

section \<open>The wish-list loading list\<close>

lemma wishlistLoading_show_toast: "wishlistLoading (show_toast t st) = wishlistLoading st"
  by (simp add: show_toast_def)

lemma wishlistLoading_send_request: "wishlistLoading (send_request r st) = wishlistLoading st"
  by (simp add: send_request_def)

lemma wishlistLoading_set: "wishlistLoading (setWishlistLoading ids st) = ids"
  by (simp add: setWishlistLoading_def)

lemma requests_setWishlistLoading: "requests (setWishlistLoading ids st) = requests st"
  by (simp add: setWishlistLoading_def)

lemma requests_send_request: "requests (send_request r st) = requests st @ [r]"
  by (simp add: send_request_def)

lemma addItemToWishlist_begin_loading:
  "wishlistLoading (snd (addItemToWishlist_begin env p st)) = seen_wishlistLoading env @ [productId p]"
  by (cases "seen_wishlist env")
     (simp_all add: addItemToWishlist_begin_def wishlistLoading_set wishlistLoading_send_request)

lemma removeItemFromWishlist_begin_loading:
  "wishlistLoading (snd (removeItemFromWishlist_begin env p st)) = seen_wishlistLoading env @ [productId p]"
proof (cases "seen_wishlist env")
  case None
  then show ?thesis
    by (simp add: removeItemFromWishlist_begin_def wishlistLoading_set)
next
  case (Some w)
  then show ?thesis
    by (cases "find_itemId (Some w) p")
       (simp_all add: removeItemFromWishlist_begin_def wishlistLoading_set wishlistLoading_send_request)
qed

lemma addItemToWishlist_settled_loading:
  "wishlistLoading (addItemToWishlist_settled env p out st)
     = filter (\<lambda>i. i \<noteq> productId p) (seen_wishlistLoading env)"
  by (simp add: addItemToWishlist_settled_def wishlistLoading_set)

lemma removeItemFromWishlist_settled_loading:
  "wishlistLoading (removeItemFromWishlist_settled env p out st)
     = filter (\<lambda>i. i \<noteq> productId p) (seen_wishlistLoading env)"
  by (simp add: removeItemFromWishlist_settled_def wishlistLoading_set)

lemma addItemToWishlist_issued:
  assumes "fst (addItemToWishlist_begin env p st) = Inr ()"
  shows "snd (addItemToWishlist env p out st)
           = addItemToWishlist_settled env p out (snd (addItemToWishlist_begin env p st))"
  using assms by (cases "addItemToWishlist_begin env p st") (auto simp: addItemToWishlist_def)

lemma removeItemFromWishlist_issued:
  assumes "fst (removeItemFromWishlist_begin env p st) = Inr ()"
  shows "snd (removeItemFromWishlist env p out st)
           = removeItemFromWishlist_settled env p out (snd (removeItemFromWishlist_begin env p st))"
  using assms by (cases "removeItemFromWishlist_begin env p st") (auto simp: removeItemFromWishlist_def)

text \<open>
  Claim C3. Toggling favourite first puts the product's id into \<open>wishlistLoading\<close>, for
  the add and for the remove handler; when the mutation settles, fulfilled or rejected
  and whatever happened to the state in between, the id is absent from
  \<open>wishlistLoading\<close>. So a handler that got as far as sending its request ends with
  the id cleared.
\<close>

theorem wishlistLoading_set_then_cleared:
  "productId p \<in> set (wishlistLoading (snd (addItemToWishlist_begin env p st)))
   \<and> productId p \<in> set (wishlistLoading (snd (removeItemFromWishlist_begin env p st)))
   \<and> productId p \<notin> set (wishlistLoading (addItemToWishlist_settled env p out st'))
   \<and> productId p \<notin> set (wishlistLoading (removeItemFromWishlist_settled env p out st'))
   \<and> (fst (addItemToWishlist_begin env p st) = Inr () \<longrightarrow>
        productId p \<notin> set (wishlistLoading (snd (addItemToWishlist env p out st))))
   \<and> (fst (removeItemFromWishlist_begin env p st) = Inr () \<longrightarrow>
        productId p \<notin> set (wishlistLoading (snd (removeItemFromWishlist env p out st))))"
proof (intro conjI impI)
  show "productId p \<in> set (wishlistLoading (snd (addItemToWishlist_begin env p st)))"
    by (simp add: addItemToWishlist_begin_loading)
  show "productId p \<in> set (wishlistLoading (snd (removeItemFromWishlist_begin env p st)))"
    by (simp add: removeItemFromWishlist_begin_loading)
  show "productId p \<notin> set (wishlistLoading (addItemToWishlist_settled env p out st'))"
    by (simp add: addItemToWishlist_settled_loading)
  show "productId p \<notin> set (wishlistLoading (removeItemFromWishlist_settled env p out st'))"
    by (simp add: removeItemFromWishlist_settled_loading)
next
  assume "fst (addItemToWishlist_begin env p st) = Inr ()"
  then show "productId p \<notin> set (wishlistLoading (snd (addItemToWishlist env p out st)))"
    by (simp add: addItemToWishlist_issued addItemToWishlist_settled_loading)
next
  assume "fst (removeItemFromWishlist_begin env p st) = Inr ()"
  then show "productId p \<notin> set (wishlistLoading (snd (removeItemFromWishlist env p out st)))"
    by (simp add: removeItemFromWishlist_issued removeItemFromWishlist_settled_loading)
qed

theorem wishlistLoading_set_then_cleared_witness:
  "fst (addItemToWishlist_begin
         \<lparr>seen_wishlistLoading = [''p7''],
          seen_wishlist = Some \<lparr>wishlist_id = ''w1'',
            customerProductListItems = Some [\<lparr>item_id = ''i1'', item_productId = ''p1''\<rparr>]\<rparr>,
          customerId = ''c1''\<rparr> \<lparr>hit_id = ''h1'', productId = ''p1''\<rparr>
         \<lparr>wishlistLoading = [''p7''], filtersLoading = False, toasts = [], requests = [],
          scrolls = [], effect_isRefetching = None\<rparr>) = Inr ()
   \<and> ''p1'' \<notin> set (wishlistLoading (snd (addItemToWishlist
         \<lparr>seen_wishlistLoading = [''p7''],
          seen_wishlist = Some \<lparr>wishlist_id = ''w1'',
            customerProductListItems = Some [\<lparr>item_id = ''i1'', item_productId = ''p1''\<rparr>]\<rparr>,
          customerId = ''c1''\<rparr> \<lparr>hit_id = ''h1'', productId = ''p1''\<rparr> Rejected
         \<lparr>wishlistLoading = [''p7''], filtersLoading = False, toasts = [], requests = [],
          scrolls = [], effect_isRefetching = None\<rparr>)))
   \<and> fst (removeItemFromWishlist_begin
         \<lparr>seen_wishlistLoading = [''p7''],
          seen_wishlist = Some \<lparr>wishlist_id = ''w1'',
            customerProductListItems = Some [\<lparr>item_id = ''i1'', item_productId = ''p1''\<rparr>]\<rparr>,
          customerId = ''c1''\<rparr> \<lparr>hit_id = ''h1'', productId = ''p1''\<rparr>
         \<lparr>wishlistLoading = [''p7''], filtersLoading = False, toasts = [], requests = [],
          scrolls = [], effect_isRefetching = None\<rparr>) = Inr ()
   \<and> ''p1'' \<notin> set (wishlistLoading (snd (removeItemFromWishlist
         \<lparr>seen_wishlistLoading = [''p7''],
          seen_wishlist = Some \<lparr>wishlist_id = ''w1'',
            customerProductListItems = Some [\<lparr>item_id = ''i1'', item_productId = ''p1''\<rparr>]\<rparr>,
          customerId = ''c1''\<rparr> \<lparr>hit_id = ''h1'', productId = ''p1''\<rparr> Fulfilled
         \<lparr>wishlistLoading = [''p7''], filtersLoading = False, toasts = [], requests = [],
          scrolls = [], effect_isRefetching = None\<rparr>)))"
proof -
  let ?env = "\<lparr>seen_wishlistLoading = [''p7''],
          seen_wishlist = Some \<lparr>wishlist_id = ''w1'',
            customerProductListItems = Some [\<lparr>item_id = ''i1'', item_productId = ''p1''\<rparr>]\<rparr>,
          customerId = ''c1''\<rparr>"
  let ?p = "\<lparr>hit_id = ''h1'', productId = ''p1''\<rparr>"
  let ?st = "\<lparr>wishlistLoading = [''p7''], filtersLoading = False, toasts = [], requests = [],
          scrolls = [], effect_isRefetching = None\<rparr>"
  have a: "fst (addItemToWishlist_begin ?env ?p ?st) = Inr ()"
    by (simp add: addItemToWishlist_begin_def)
  have r: "fst (removeItemFromWishlist_begin ?env ?p ?st) = Inr ()"
    by (simp add: removeItemFromWishlist_begin_def find_itemId_def)
  from a wishlistLoading_set_then_cleared [of ?p ?env ?st Rejected ?st]
  have "productId ?p \<notin> set (wishlistLoading (snd (addItemToWishlist ?env ?p Rejected ?st)))"
    by blast
  moreover from r wishlistLoading_set_then_cleared [of ?p ?env ?st Fulfilled ?st]
  have "productId ?p \<notin> set (wishlistLoading (snd (removeItemFromWishlist ?env ?p Fulfilled ?st)))"
    by blast
  ultimately show ?thesis
    using a r by simp
qed

section \<open>The item lookup of \<open>removeItemFromWishlist\<close>\<close>

lemma find_first_match:
  assumes "\<exists>i \<in> set items. P i"
  shows "\<exists>i. find P items = Some i \<and> i \<in> set items \<and> P i"
proof (cases "find P items")
  case None
  with assms show ?thesis
    by (simp add: find_None_iff)
next
  case (Some i)
  then have "i \<in> set items \<and> P i"
    by (auto simp: find_Some_iff)
  with Some show ?thesis
    by simp
qed

lemma find_itemId_found:
  assumes "customerProductListItems w = Some items"
    and "find (\<lambda>i. item_productId i = productId p) items = Some i"
  shows "find_itemId (Some w) p = Inr (item_id i)"
  using assms by (simp add: find_itemId_def)

lemma find_itemId_missing:
  assumes "customerProductListItems w = Some items"
    and "\<not> (\<exists>i \<in> set items. item_productId i = productId p)"
  shows "find_itemId (Some w) p = Inl TypeError"
proof -
  from assms(2) have "find (\<lambda>i. item_productId i = productId p) items = None"
    by (simp add: find_None_iff)
  with assms(1) show ?thesis
    by (simp add: find_itemId_def)
qed

lemma removeItemFromWishlist_sends_iff:
  "fst (removeItemFromWishlist_begin env p st) = Inr ()
     \<longleftrightarrow> (\<exists>w items. seen_wishlist env = Some w \<and> customerProductListItems w = Some items
                    \<and> (\<exists>i \<in> set items. item_productId i = productId p))"
proof (cases "seen_wishlist env")
  case None
  then show ?thesis
    by (simp add: removeItemFromWishlist_begin_def)
next
  case (Some w)
  show ?thesis
  proof (cases "customerProductListItems w")
    case None
    with Some show ?thesis
      by (simp add: removeItemFromWishlist_begin_def find_itemId_def)
  next
    case items: (Some items)
    show ?thesis
    proof (cases "\<exists>i \<in> set items. item_productId i = productId p")
      case True
      from find_first_match [OF True] obtain i
        where "find (\<lambda>i. item_productId i = productId p) items = Some i"
        by blast
      with Some items True show ?thesis
        by (simp add: removeItemFromWishlist_begin_def find_itemId_found)
    next
      case False
      with Some items show ?thesis
        by (simp add: removeItemFromWishlist_begin_def find_itemId_missing)
    qed
  qed
qed

text \<open>
  Claim C9. When the wish list's \<open>customerProductListItems\<close> holds an item of the toggled
  product, the lookup finds the first such item and the delete request is sent with
  that item's id; when it holds none, the handler throws a \<open>TypeError\<close> and sends no
  request.
\<close>

theorem removeItemFromWishlist_needs_item:
  "seen_wishlist env = Some w \<and> customerProductListItems w = Some items \<longrightarrow>
     ((\<exists>i \<in> set items. item_productId i = productId p) \<longrightarrow>
        (\<exists>i. find (\<lambda>i. item_productId i = productId p) items = Some i
             \<and> i \<in> set items \<and> item_productId i = productId p
             \<and> fst (removeItemFromWishlist_begin env p st) = Inr ()
             \<and> requests (snd (removeItemFromWishlist_begin env p st))
                 = requests st @ [DeleteCustomerProductListItem (customerId env) (wishlist_id w) (item_id i)]))
     \<and> (\<not> (\<exists>i \<in> set items. item_productId i = productId p) \<longrightarrow>
          fst (removeItemFromWishlist_begin env p st) = Inl TypeError
          \<and> requests (snd (removeItemFromWishlist_begin env p st)) = requests st
          \<and> removeItemFromWishlist env p out st = removeItemFromWishlist_begin env p st)"
proof (intro impI conjI)
  assume wl: "seen_wishlist env = Some w \<and> customerProductListItems w = Some items"
    and ex: "\<exists>i \<in> set items. item_productId i = productId p"
  from find_first_match [OF ex] obtain i
    where i: "find (\<lambda>i. item_productId i = productId p) items = Some i"
      "i \<in> set items" "item_productId i = productId p"
    by blast
  from wl i(1) have "find_itemId (seen_wishlist env) p = Inr (item_id i)"
    by (simp add: find_itemId_found)
  with wl have "removeItemFromWishlist_begin env p st
      = (Inr (), send_request (DeleteCustomerProductListItem (customerId env) (wishlist_id w) (item_id i))
                   (setWishlistLoading (seen_wishlistLoading env @ [productId p]) st))"
    by (simp add: removeItemFromWishlist_begin_def)
  with i show "\<exists>i. find (\<lambda>i. item_productId i = productId p) items = Some i
             \<and> i \<in> set items \<and> item_productId i = productId p
             \<and> fst (removeItemFromWishlist_begin env p st) = Inr ()
             \<and> requests (snd (removeItemFromWishlist_begin env p st))
                 = requests st @ [DeleteCustomerProductListItem (customerId env) (wishlist_id w) (item_id i)]"
    by (simp add: requests_send_request requests_setWishlistLoading)
next
  assume wl: "seen_wishlist env = Some w \<and> customerProductListItems w = Some items"
    and nex: "\<not> (\<exists>i \<in> set items. item_productId i = productId p)"
  from wl nex have "find_itemId (seen_wishlist env) p = Inl TypeError"
    by (simp add: find_itemId_missing)
  with wl have thrown: "removeItemFromWishlist_begin env p st
      = (Inl TypeError, setWishlistLoading (seen_wishlistLoading env @ [productId p]) st)"
    by (simp add: removeItemFromWishlist_begin_def)
  then show "fst (removeItemFromWishlist_begin env p st) = Inl TypeError"
    by simp
  from thrown show "requests (snd (removeItemFromWishlist_begin env p st)) = requests st"
    by (simp add: requests_setWishlistLoading)
  from thrown show "removeItemFromWishlist env p out st = removeItemFromWishlist_begin env p st"
    by (simp add: removeItemFromWishlist_def)
qed

theorem removeItemFromWishlist_needs_item_witness:
  "requests (snd (removeItemFromWishlist_begin
      \<lparr>seen_wishlistLoading = [],
       seen_wishlist = Some \<lparr>wishlist_id = ''w1'',
         customerProductListItems = Some [\<lparr>item_id = ''i1'', item_productId = ''p1''\<rparr>,
                                          \<lparr>item_id = ''i2'', item_productId = ''p2''\<rparr>]\<rparr>,
       customerId = ''c1''\<rparr>
      \<lparr>hit_id = ''h2'', productId = ''p2''\<rparr>
      \<lparr>wishlistLoading = [], filtersLoading = False, toasts = [], requests = [],
       scrolls = [], effect_isRefetching = None\<rparr>))
     = [DeleteCustomerProductListItem ''c1'' ''w1'' ''i2'']
   \<and> fst (removeItemFromWishlist_begin
      \<lparr>seen_wishlistLoading = [],
       seen_wishlist = Some \<lparr>wishlist_id = ''w1'',
         customerProductListItems = Some [\<lparr>item_id = ''i1'', item_productId = ''p1''\<rparr>,
                                          \<lparr>item_id = ''i2'', item_productId = ''p2''\<rparr>]\<rparr>,
       customerId = ''c1''\<rparr>
      \<lparr>hit_id = ''h3'', productId = ''p3''\<rparr>
      \<lparr>wishlistLoading = [], filtersLoading = False, toasts = [], requests = [],
       scrolls = [], effect_isRefetching = None\<rparr>) = Inl TypeError
   \<and> requests (snd (removeItemFromWishlist_begin
      \<lparr>seen_wishlistLoading = [],
       seen_wishlist = Some \<lparr>wishlist_id = ''w1'',
         customerProductListItems = Some [\<lparr>item_id = ''i1'', item_productId = ''p1''\<rparr>,
                                          \<lparr>item_id = ''i2'', item_productId = ''p2''\<rparr>]\<rparr>,
       customerId = ''c1''\<rparr>
      \<lparr>hit_id = ''h3'', productId = ''p3''\<rparr>
      \<lparr>wishlistLoading = [], filtersLoading = False, toasts = [], requests = [],
       scrolls = [], effect_isRefetching = None\<rparr>)) = []"
proof -
  let ?items = "[\<lparr>item_id = ''i1'', item_productId = ''p1''\<rparr>,
                 \<lparr>item_id = ''i2'', item_productId = ''p2''\<rparr>]"
  let ?w = "\<lparr>wishlist_id = ''w1'', customerProductListItems = Some ?items\<rparr>"
  let ?env = "\<lparr>seen_wishlistLoading = [], seen_wishlist = Some ?w, customerId = ''c1''\<rparr>"
  let ?st = "\<lparr>wishlistLoading = [], filtersLoading = False, toasts = [], requests = [],
       scrolls = [], effect_isRefetching = None\<rparr>"
  let ?p2 = "\<lparr>hit_id = ''h2'', productId = ''p2''\<rparr>"
  let ?p3 = "\<lparr>hit_id = ''h3'', productId = ''p3''\<rparr>"
  have wl: "seen_wishlist ?env = Some ?w \<and> customerProductListItems ?w = Some ?items"
    by simp
  have present: "\<exists>i \<in> set ?items. item_productId i = productId ?p2"
    by simp
  have absent: "\<not> (\<exists>i \<in> set ?items. item_productId i = productId ?p3)"
    by simp
  have found: "find (\<lambda>i. item_productId i = productId ?p2) ?items
                 = Some \<lparr>item_id = ''i2'', item_productId = ''p2''\<rparr>"
    by simp
  from removeItemFromWishlist_needs_item [of ?env ?w ?items ?p2 ?st Fulfilled] wl present
  obtain i where first: "find (\<lambda>i. item_productId i = productId ?p2) ?items = Some i"
    and sent: "requests (snd (removeItemFromWishlist_begin ?env ?p2 ?st))
           = requests ?st @ [DeleteCustomerProductListItem (customerId ?env) (wishlist_id ?w) (item_id i)]"
    by blast
  from first found have "i = \<lparr>item_id = ''i2'', item_productId = ''p2''\<rparr>"
    by (simp only: option.inject)
  then have "item_id i = ''i2''"
    by simp
  with sent have "requests (snd (removeItemFromWishlist_begin ?env ?p2 ?st))
           = [DeleteCustomerProductListItem ''c1'' ''w1'' ''i2'']"
    by simp
  moreover from removeItemFromWishlist_needs_item [of ?env ?w ?items ?p3 ?st Fulfilled] wl absent
  have "fst (removeItemFromWishlist_begin ?env ?p3 ?st) = Inl TypeError
        \<and> requests (snd (removeItemFromWishlist_begin ?env ?p3 ?st)) = requests ?st"
    by blast
  ultimately show ?thesis
    by simp
qed

section \<open>Tiles\<close>

text \<open>
  Claim C10. Every hit is rendered as a tile with \<open>isFavourite\<close> false, whatever the
  wish list holds, so toggling favourite on a tile the page rendered calls the add
  handler for that hit.
\<close>

theorem tiles_are_never_favourites:
  "isFavourite (hitComponent wl h) = False
   \<and> tile_product (hitComponent wl h) = h
   \<and> hitComponent wl h = hitComponent None h
   \<and> tile_toggle (hitComponent wl h) = AddItemToWishlist h"
  by (simp add: hitComponent_def tile_toggle_def onFavouriteToggle_def)

section \<open>Disallowed refinements\<close>

lemma applyDisallowList_refinements:
  assumes "refinements r = Some rs"
  shows "applyDisallowList (Some r)
           = Some (r\<lparr>refinements := Some (filter (\<lambda>x. attributeId x \<notin> set REFINEMENT_DISALLOW_LIST) rs)\<rparr>)"
  using assms by (simp add: applyDisallowList_def)

lemma out_productSearchResult_ProductList:
  assumes "ProductList M v = Inr out"
  shows "out_productSearchResult out = applyDisallowList (productSearchResult v)"
proof (cases "errorHandling (errorStatus (error v))")
  case (Inl e)
  with assms show ?thesis
    by (simp add: ProductList_error)
next
  case (Inr u)
  with assms show ?thesis
    by (auto simp: ProductList_ok)
qed

text \<open>
  Claim C4. After the render has applied the disallow list to a search result that has
  refinements, no refinement with an attribute id of the list is left (none with
  \<open>c_isNew\<close>), every other refinement of the upstream response is still there, in the
  order of the response, and nothing else of the result has changed.
\<close>

theorem disallowed_refinements_removed:
  assumes "ProductList M v = Inr out"
    and "productSearchResult v = Some r"
    and "refinements r = Some rs"
  shows "\<exists>r' shown. out_productSearchResult out = Some r' \<and> refinements r' = Some shown
           \<and> (\<forall>x \<in> set shown. attributeId x \<notin> set REFINEMENT_DISALLOW_LIST \<and> attributeId x \<noteq> ''c_isNew'')
           \<and> (\<forall>x \<in> set rs. attributeId x \<notin> set REFINEMENT_DISALLOW_LIST \<longrightarrow> x \<in> set shown)
           \<and> subseq shown rs
           \<and> (\<forall>x. attributeId x \<notin> set REFINEMENT_DISALLOW_LIST \<longrightarrow> count_list shown x = count_list rs x)
           \<and> total r' = total r"
proof -
  let ?shown = "filter (\<lambda>x. attributeId x \<notin> set REFINEMENT_DISALLOW_LIST) rs"
  let ?r' = "r\<lparr>refinements := Some ?shown\<rparr>"
  from assms have "out_productSearchResult out = Some ?r'"
    by (simp add: out_productSearchResult_ProductList applyDisallowList_refinements)
  moreover have "refinements ?r' = Some ?shown" and "total ?r' = total r"
    by simp_all
  moreover have "\<forall>x \<in> set ?shown. attributeId x \<notin> set REFINEMENT_DISALLOW_LIST \<and> attributeId x \<noteq> ''c_isNew''"
    by (simp add: REFINEMENT_DISALLOW_LIST_def)
  moreover have "\<forall>x \<in> set rs. attributeId x \<notin> set REFINEMENT_DISALLOW_LIST \<longrightarrow> x \<in> set ?shown"
    by simp
  moreover have "subseq ?shown rs"
    by simp
  moreover have "\<forall>x. attributeId x \<notin> set REFINEMENT_DISALLOW_LIST \<longrightarrow> count_list ?shown x = count_list rs x"
    by (induction rs) simp_all
  ultimately show ?thesis
    by blast
qed

theorem disallowed_refinements_removed_witness:
  "\<exists>out r' shown.
     ProductList 900
       \<lparr>location_search = [], categoryId = Some ''mens'', res = None, isLoading = False,
        isRefetching = False,
        productSearchResult = Some \<lparr>refinements = Some [\<lparr>attributeId = ''c_isNew'', label = ''New''\<rparr>,
                                                      \<lparr>attributeId = ''c_size'', label = ''Size''\<rparr>],
                                    total = 2\<rparr>,
        error = None, category = None\<rparr> = Inr out
     \<and> out_productSearchResult out = Some r' \<and> refinements r' = Some shown
     \<and> \<lparr>attributeId = ''c_isNew'', label = ''New''\<rparr> \<notin> set shown
     \<and> \<lparr>attributeId = ''c_size'', label = ''Size''\<rparr> \<in> set shown"
proof -
  let ?new = "\<lparr>attributeId = ''c_isNew'', label = ''New''\<rparr>"
  let ?size = "\<lparr>attributeId = ''c_size'', label = ''Size''\<rparr>"
  let ?r = "\<lparr>refinements = Some [?new, ?size], total = 2\<rparr>"
  let ?v = "\<lparr>location_search = [], categoryId = Some ''mens'', res = None, isLoading = False,
        isRefetching = False, productSearchResult = Some ?r, error = None, category = None\<rparr>"
  obtain out where out: "ProductList 900 ?v = Inr out"
    by (simp add: ProductList_def errorStatus_def errorHandling_def)
  have r: "productSearchResult ?v = Some ?r" and rs: "refinements ?r = Some [?new, ?size]"
    by simp_all
  from disallowed_refinements_removed [OF out r rs]
  obtain r' shown where shown: "out_productSearchResult out = Some r'" "refinements r' = Some shown"
      "\<forall>x \<in> set shown. attributeId x \<notin> set REFINEMENT_DISALLOW_LIST \<and> attributeId x \<noteq> ''c_isNew''"
      "\<forall>x \<in> set [?new, ?size]. attributeId x \<notin> set REFINEMENT_DISALLOW_LIST \<longrightarrow> x \<in> set shown"
    by blast
  from shown(3) have "?new \<notin> set shown"
    by auto
  moreover from shown(4) have "?size \<in> set shown"
    by (simp add: REFINEMENT_DISALLOW_LIST_def)
  ultimately show ?thesis
    using out shown(1,2) by blast
qed

section \<open>Clearing the filters\<close>

lemma newSearchParams_refine: "newSearchParams sp ''refine'' = Some (JArr [])"
  by (simp add: newSearchParams_def)

lemma newSearchParams_other: "k \<noteq> ''refine'' \<Longrightarrow> newSearchParams sp k = sp k"
  by (simp add: newSearchParams_def)

text \<open>
  The path \<open>resetFilters\<close> navigates to is built from the search parameters with
  \<open>refine\<close> replaced by the empty list and every other parameter (the query \<open>q\<close>
  among them) as it was. It is the \<open>/search\<close> path when a free-text search is active;
  otherwise it is \<open>/category/\<close> followed by what the template makes of
  \<open>params.categoryId\<close>: the category id when the route has one.
\<close>

lemma resetFilters_target:
  "newSearchParams sp ''refine'' = Some (JArr [])
   \<and> (\<forall>k. k \<noteq> ''refine'' \<longrightarrow> newSearchParams sp k = sp k)
   \<and> newSearchParams sp ''q'' = sp ''q''
   \<and> (isSearch v \<longrightarrow> resetFilters f sp v = ''/search?'' @ f (newSearchParams sp))
   \<and> (\<not> isSearch v \<longrightarrow>
        resetFilters f sp v
          = ''/category/'' @ template_string (categoryId v) @ ''?'' @ f (newSearchParams sp)
        \<and> (\<forall>c. categoryId v = Some c \<longrightarrow>
              resetFilters f sp v = ''/category/'' @ c @ ''?'' @ f (newSearchParams sp)))"
proof (intro conjI allI impI)
  show "newSearchParams sp ''refine'' = Some (JArr [])"
    by (rule newSearchParams_refine)
  show "newSearchParams sp ''q'' = sp ''q''"
    by (simp add: newSearchParams_other)
next
  fix k :: string
  assume "k \<noteq> ''refine''"
  then show "newSearchParams sp k = sp k"
    by (rule newSearchParams_other)
next
  assume "isSearch v"
  then show "resetFilters f sp v = ''/search?'' @ f (newSearchParams sp)"
    by (simp add: resetFilters_def)
next
  assume "\<not> isSearch v"
  then show "resetFilters f sp v
          = ''/category/'' @ template_string (categoryId v) @ ''?'' @ f (newSearchParams sp)"
    by (simp add: resetFilters_def)
next
  fix c
  assume "\<not> isSearch v" and "categoryId v = Some c"
  then show "resetFilters f sp v = ''/category/'' @ c @ ''?'' @ f (newSearchParams sp)"
    by (simp add: resetFilters_def template_string_def)
qed

lemma resetFilters_target_example:
  "resetFilters
      (\<lambda>sp. (case sp ''q'' of Some (JStr q) \<Rightarrow> ''q='' @ q | _ \<Rightarrow> [])
             @ (case sp ''refine'' of Some (JArr []) \<Rightarrow> [] | _ \<Rightarrow> ''&refine=...''))
      [''q'' \<mapsto> JStr ''shirt'', ''refine'' \<mapsto> JArr [JStr ''c_size=M'']]
      \<lparr>location_search = [(''q'', ''shirt'')], categoryId = None, res = None, isLoading = False,
       isRefetching = False, productSearchResult = None, error = None, category = None\<rparr>
     = ''/search?q=shirt''
   \<and> resetFilters
      (\<lambda>sp. (case sp ''q'' of Some (JStr q) \<Rightarrow> ''q='' @ q | _ \<Rightarrow> [])
             @ (case sp ''refine'' of Some (JArr []) \<Rightarrow> [] | _ \<Rightarrow> ''&refine=...''))
      [''refine'' \<mapsto> JArr [JStr ''c_size=M'']]
      \<lparr>location_search = [], categoryId = Some ''mens'', res = None, isLoading = False,
       isRefetching = False, productSearchResult = None, error = None, category = None\<rparr>
     = ''/category/mens?''"
proof -
  let ?f = "\<lambda>sp :: search_params.
              (case sp ''q'' of Some (JStr q) \<Rightarrow> ''q='' @ q | _ \<Rightarrow> [])
              @ (case sp ''refine'' of Some (JArr []) \<Rightarrow> [] | _ \<Rightarrow> ''&refine=...'')"
  let ?sp1 = "[''q'' \<mapsto> JStr ''shirt'', ''refine'' \<mapsto> JArr [JStr ''c_size=M'']]"
  let ?sp2 = "[''refine'' \<mapsto> JArr [JStr ''c_size=M'']]"
  let ?v1 = "\<lparr>location_search = [(''q'', ''shirt'')], categoryId = None, res = None,
       isLoading = False, isRefetching = False, productSearchResult = None, error = None,
       category = None\<rparr>"
  let ?v2 = "\<lparr>location_search = [], categoryId = Some ''mens'', res = None,
       isLoading = False, isRefetching = False, productSearchResult = None, error = None,
       category = None\<rparr>"
  have search: "isSearch ?v1"
    by (simp add: isSearch_def searchQuery_def urlParams_get_def truthy_def)
  have browse: "\<not> isSearch ?v2" and cat: "categoryId ?v2 = Some ''mens''"
    by (simp_all add: isSearch_def searchQuery_def urlParams_get_def truthy_def)
  from resetFilters_target [of ?sp1 ?v1 ?f] search
  have "resetFilters ?f ?sp1 ?v1 = ''/search?'' @ ?f (newSearchParams ?sp1)"
    by blast
  moreover from resetFilters_target [of ?sp2 ?v2 ?f] browse cat
  have "resetFilters ?f ?sp2 ?v2 = ''/category/'' @ ''mens'' @ ''?'' @ ?f (newSearchParams ?sp2)"
    by blast
  ultimately show ?thesis
    by (simp add: newSearchParams_def)
qed


section \<open>The response of a server-side render\<close>

lemma res_set_header: "headers (res_set field val r) field = Some val"
  by (simp add: res_set_def)

lemma res_set_other_headers: "k \<noteq> field \<Longrightarrow> headers (res_set field val r) k = headers r k"
  by (simp add: res_set_def)

lemma res_set_frame: "res_set field val r = r\<lparr>headers := headers (res_set field val r)\<rparr>"
  by (simp add: res_set_def)

lemma out_res_ProductList:
  assumes "ProductList M v = Inr out"
  shows "out_res out = responseHandling M (res v)"
proof (cases "errorHandling (errorStatus (error v))")
  case (Inl e)
  with assms show ?thesis
    by (simp add: ProductList_error)
next
  case (Inr u)
  with assms show ?thesis
    by (auto simp: ProductList_ok)
qed

lemma ProductList_no_response:
  "ProductList M v = Inr out \<Longrightarrow> res v = None \<Longrightarrow> out_res out = None"
  by (simp add: out_res_ProductList responseHandling_def)

text \<open>
  Claim C8. A render that raises nothing and has a response object sets the response's
  \<open>Cache-Control\<close> header to \<open>max-age=\<close> followed by the constant \<open>MAX_CACHE_AGE\<close>, a
  value that does not depend on the page view, and leaves every other header and every
  other field of the response as it was.
\<close>

theorem cache_control_on_success:
  assumes "ProductList M v = Inr out"
    and "res v = Some r"
  shows "\<exists>r'. out_res out = Some r'
           \<and> headers r' ''Cache-Control'' = Some (''max-age='' @ string_of_nat M)
           \<and> (\<forall>k. k \<noteq> ''Cache-Control'' \<longrightarrow> headers r' k = headers r k)
           \<and> statusCode r' = statusCode r
           \<and> r' = r\<lparr>headers := headers r'\<rparr>"
proof -
  let ?r' = "res_set ''Cache-Control'' (''max-age='' @ string_of_nat M) r"
  from assms have "out_res out = Some ?r'"
    by (simp add: out_res_ProductList responseHandling_def)
  moreover have "headers ?r' ''Cache-Control'' = Some (''max-age='' @ string_of_nat M)"
    by (rule res_set_header)
  moreover have "\<forall>k. k \<noteq> ''Cache-Control'' \<longrightarrow> headers ?r' k = headers r k"
    by (simp add: res_set_other_headers)
  moreover have "statusCode ?r' = statusCode r"
    by (simp add: res_set_def)
  moreover have "?r' = r\<lparr>headers := headers ?r'\<rparr>"
    by (rule res_set_frame)
  ultimately show ?thesis
    by blast
qed

theorem cache_control_on_success_witness:
  "\<exists>out r'.
     ProductList 900
       \<lparr>location_search = [(''q'', ''shirt'')], categoryId = None,
        res = Some \<lparr>headers = [''Vary'' \<mapsto> ''Accept''], statusCode = 200\<rparr>,
        isLoading = False, isRefetching = False, productSearchResult = None,
        error = None, category = None\<rparr> = Inr out
     \<and> out_res out = Some r'
     \<and> headers r' ''Cache-Control'' = Some ''max-age=900''
     \<and> headers r' ''Vary'' = Some ''Accept''
     \<and> statusCode r' = 200"
proof -
  let ?r = "\<lparr>headers = [''Vary'' \<mapsto> ''Accept''], statusCode = 200\<rparr>"
  let ?v = "\<lparr>location_search = [(''q'', ''shirt'')], categoryId = None, res = Some ?r,
        isLoading = False, isRefetching = False, productSearchResult = None,
        error = None, category = None\<rparr>"
  obtain out where out: "ProductList 900 ?v = Inr out"
    by (simp add: ProductList_def errorStatus_def errorHandling_def)
  have r: "res ?v = Some ?r"
    by simp
  have digits: "string_of_nat 900 = ''900''"
    by (simp add: string_of_nat.simps digit_char_def)
  from cache_control_on_success [OF out r]
  obtain r' where r': "out_res out = Some r'"
      "headers r' ''Cache-Control'' = Some (''max-age='' @ string_of_nat 900)"
      "\<forall>k. k \<noteq> ''Cache-Control'' \<longrightarrow> headers r' k = headers ?r k"
      "statusCode r' = statusCode ?r"
    by blast
  from r'(3) have "headers r' ''Vary'' = headers ?r ''Vary''"
    by simp
  with out r'(1,2,4) show ?thesis
    by (auto simp: digits)
qed

section \<open>Search scope\<close>

lemma isSearch_iff: "isSearch v \<longleftrightarrow> (\<exists>q. searchQuery v = Some q \<and> q \<noteq> [])"
  by (cases "searchQuery v") (simp_all add: isSearch_def truthy_def)

lemma category_browsing_active_iff:
  "category_browsing_active v
     \<longleftrightarrow> \<not> isLoading v \<and> (\<exists>c. category v = Some c \<and> category_id c \<noteq> [])"
  by (cases "category v") (simp_all add: category_browsing_active_def filters_def)

text \<open>
  Claim C6, as stated, fails: with no \<open>q\<close> and no category id in the route neither a
  query text nor a category filter is applied, and on a category page whose product
  search is still loading the filter is empty although the category is there.
\<close>

theorem scope_neither_active:
  "\<not> (free_text_search_active
          \<lparr>location_search = [], categoryId = None, res = None, isLoading = False,
           isRefetching = False, productSearchResult = None, error = None, category = None\<rparr>
        \<and> \<not> category_browsing_active
          \<lparr>location_search = [], categoryId = None, res = None, isLoading = False,
           isRefetching = False, productSearchResult = None, error = None, category = None\<rparr>
        \<or> \<not> free_text_search_active
          \<lparr>location_search = [], categoryId = None, res = None, isLoading = False,
           isRefetching = False, productSearchResult = None, error = None, category = None\<rparr>
        \<and> category_browsing_active
          \<lparr>location_search = [], categoryId = None, res = None, isLoading = False,
           isRefetching = False, productSearchResult = None, error = None, category = None\<rparr>)
   \<and> searchQuery \<lparr>location_search = [], categoryId = None, res = None, isLoading = False,
                isRefetching = False, productSearchResult = None, error = None,
                category = None\<rparr> = None
   \<and> \<not> useCategory_enabled
        \<lparr>location_search = [], categoryId = None, res = None, isLoading = False,
         isRefetching = False, productSearchResult = None, error = None, category = None\<rparr>
   \<and> \<not> free_text_search_active
        \<lparr>location_search = [], categoryId = None, res = None, isLoading = False,
         isRefetching = False, productSearchResult = None, error = None, category = None\<rparr>
   \<and> \<not> category_browsing_active
        \<lparr>location_search = [], categoryId = None, res = None, isLoading = False,
         isRefetching = False, productSearchResult = None, error = None, category = None\<rparr>
   \<and> searchQuery \<lparr>location_search = [], categoryId = Some ''mens'', res = None, isLoading = True,
                isRefetching = False, productSearchResult = None, error = None,
                category = Some \<lparr>category_id = ''mens'', pageTitle = ''Mens''\<rparr>\<rparr> = None
   \<and> filters \<lparr>location_search = [], categoryId = Some ''mens'', res = None, isLoading = True,
                isRefetching = False, productSearchResult = None, error = None,
                category = Some \<lparr>category_id = ''mens'', pageTitle = ''Mens''\<rparr>\<rparr> = []
   \<and> \<not> free_text_search_active
        \<lparr>location_search = [], categoryId = Some ''mens'', res = None, isLoading = True,
                isRefetching = False, productSearchResult = None, error = None,
                category = Some \<lparr>category_id = ''mens'', pageTitle = ''Mens''\<rparr>\<rparr>
   \<and> \<not> category_browsing_active
        \<lparr>location_search = [], categoryId = Some ''mens'', res = None, isLoading = True,
                isRefetching = False, productSearchResult = None, error = None,
                category = Some \<lparr>category_id = ''mens'', pageTitle = ''Mens''\<rparr>\<rparr>"
  by (simp add: searchQuery_def urlParams_get_def useCategory_enabled_def isSearch_def truthy_def
        free_text_search_active_def category_browsing_active_def query_def filters_def)

text \<open>
  Claim C6, amended. Free-text search is active exactly when \<open>q\<close> is present and not
  empty; then the category lookup is disabled and the query text is \<open>q\<close>. When \<open>q\<close> is
  absent or empty no query text is applied and the category lookup is enabled exactly
  when the route has a category id. The category filter is applied exactly when the
  product search is not loading and a category with an id is there, and it is then
  \<open>categories.id:\<close> followed by that id.
\<close>

theorem scope_by_query_string:
  "(isSearch v \<longleftrightarrow> (\<exists>q. searchQuery v = Some q \<and> q \<noteq> []))
   \<and> (free_text_search_active v \<longleftrightarrow> isSearch v)
   \<and> (\<forall>q. searchQuery v = Some q \<and> q \<noteq> [] \<longrightarrow> \<not> useCategory_enabled v \<and> query v = q)
   \<and> (searchQuery v = None \<or> searchQuery v = Some [] \<longrightarrow>
        query v = [] \<and> (useCategory_enabled v \<longleftrightarrow> truthy (categoryId v)))
   \<and> (category_browsing_active v
        \<longleftrightarrow> \<not> isLoading v \<and> (\<exists>c. category v = Some c \<and> category_id c \<noteq> []))
   \<and> (\<forall>c. \<not> isLoading v \<and> category v = Some c \<and> category_id c \<noteq> [] \<longrightarrow>
         filters v = ''categories.id:'' @ category_id c)"
proof (intro conjI allI impI)
  show "isSearch v \<longleftrightarrow> (\<exists>q. searchQuery v = Some q \<and> q \<noteq> [])"
    by (rule isSearch_iff)
  show "free_text_search_active v \<longleftrightarrow> isSearch v"
    by (cases "searchQuery v") (simp_all add: free_text_search_active_def query_def isSearch_def truthy_def)
  show "category_browsing_active v
        \<longleftrightarrow> \<not> isLoading v \<and> (\<exists>c. category v = Some c \<and> category_id c \<noteq> [])"
    by (rule category_browsing_active_iff)
next
  fix q
  assume q: "searchQuery v = Some q \<and> q \<noteq> []"
  then have "isSearch v"
    by (auto simp: isSearch_iff)
  then show "\<not> useCategory_enabled v"
    by (simp add: useCategory_enabled_def)
  from q show "query v = q"
    by (simp add: query_def)
next
  assume "searchQuery v = None \<or> searchQuery v = Some []"
  then have none: "query v = []" and "\<not> isSearch v"
    by (auto simp: query_def isSearch_def truthy_def)
  then show "query v = []" and "useCategory_enabled v \<longleftrightarrow> truthy (categoryId v)"
    by (simp_all add: useCategory_enabled_def)
next
  fix c
  assume "\<not> isLoading v \<and> category v = Some c \<and> category_id c \<noteq> []"
  then show "filters v = ''categories.id:'' @ category_id c"
    by (simp add: filters_def)
qed

theorem scope_by_query_string_witness:
  "isSearch \<lparr>location_search = [(''q'', ''shirt'')], categoryId = None, res = None,
             isLoading = False, isRefetching = False, productSearchResult = None,
             error = None, category = None\<rparr>
   \<and> \<not> useCategory_enabled
         \<lparr>location_search = [(''q'', ''shirt'')], categoryId = None, res = None,
          isLoading = False, isRefetching = False, productSearchResult = None,
          error = None, category = None\<rparr>
   \<and> query \<lparr>location_search = [(''q'', ''shirt'')], categoryId = None, res = None,
             isLoading = False, isRefetching = False, productSearchResult = None,
             error = None, category = None\<rparr> = ''shirt''
   \<and> query \<lparr>location_search = [], categoryId = Some ''mens'', res = None,
             isLoading = False, isRefetching = False, productSearchResult = None,
             error = None, category = Some \<lparr>category_id = ''mens'', pageTitle = ''Mens''\<rparr>\<rparr> = []
   \<and> useCategory_enabled
         \<lparr>location_search = [], categoryId = Some ''mens'', res = None,
          isLoading = False, isRefetching = False, productSearchResult = None,
          error = None, category = Some \<lparr>category_id = ''mens'', pageTitle = ''Mens''\<rparr>\<rparr>
   \<and> filters \<lparr>location_search = [], categoryId = Some ''mens'', res = None,
             isLoading = False, isRefetching = False, productSearchResult = None,
             error = None, category = Some \<lparr>category_id = ''mens'', pageTitle = ''Mens''\<rparr>\<rparr>
       = ''categories.id:mens''"
proof -
  let ?v1 = "\<lparr>location_search = [(''q'', ''shirt'')], categoryId = None, res = None,
             isLoading = False, isRefetching = False, productSearchResult = None,
             error = None, category = None\<rparr>"
  let ?c = "\<lparr>category_id = ''mens'', pageTitle = ''Mens''\<rparr>"
  let ?v2 = "\<lparr>location_search = [], categoryId = Some ''mens'', res = None,
             isLoading = False, isRefetching = False, productSearchResult = None,
             error = None, category = Some ?c\<rparr>"
  have q1: "searchQuery ?v1 = Some ''shirt'' \<and> ''shirt'' \<noteq> []"
    by (simp add: searchQuery_def urlParams_get_def)
  have q2: "searchQuery ?v2 = None \<or> searchQuery ?v2 = Some []"
    by (simp add: searchQuery_def urlParams_get_def)
  have c2: "\<not> isLoading ?v2 \<and> category ?v2 = Some ?c \<and> category_id ?c \<noteq> []"
    and t2: "truthy (categoryId ?v2)"
    by (simp_all add: truthy_def)
  from scope_by_query_string [of ?v1] q1
  have "isSearch ?v1 \<and> \<not> useCategory_enabled ?v1 \<and> query ?v1 = ''shirt''"
    by blast
  moreover from scope_by_query_string [of ?v2] q2 t2
  have "query ?v2 = [] \<and> useCategory_enabled ?v2"
    by blast
  moreover from scope_by_query_string [of ?v2] c2
  have "filters ?v2 = ''categories.id:'' @ category_id ?c"
    by blast
  ultimately show ?thesis
    by simp
qed

section \<open>Scrolling to the top\<close>








end
